theory Spec2Isabelle
  imports Main "HOL-Library.Sublist"
begin

section \<open>Events and errors (pkg/reporter, pkg/errors)\<close>

text \<open>
  The event kinds of \<^verbatim>\<open>reporter\<close> and the error values of \<^verbatim>\<open>errors\<close> that the
  three source files name. A Go \<^verbatim>\<open>error\<close> is either one of the plain error values or a
  \<^verbatim>\<open>*reporter.KpmEvent\<close>; \<^verbatim>\<open>nil\<close> is \<open>None\<close> of the option type.
  \<open>NilPointerPanic\<close> is not a returned error: it is the run-time panic of a write
  through a nil pointer, kept as an outcome of its own.
  \<open>OtherError\<close> stands for an error produced by a collaborator (the operating system, the
  package loader), of which the code only tests \<^verbatim>\<open>err != nil\<close>.
\<close>

datatype EventType =
    IsNotUrl | UrlSchemeNotOci | IsNotRef | UnsupportOciUrlScheme
  | UnknownEnv | Bug | FailedLoadKclMod | InvalidGitUrl | InvalidRepo

datatype kpm_error =
    InternalBug | FailedPushToOci | InvalidOciUrl | UnknownEnvError | OtherError string

datatype KpmEvent =
    NewEvent EventType "string list"
  | NewErrorEvent EventType kpm_error "string list"

fun Type :: "KpmEvent \<Rightarrow> EventType" where
  "Type (NewEvent t msgs) = t"
| "Type (NewErrorEvent t e msgs) = t"

datatype go_error = Err kpm_error | Ev KpmEvent | NilPointerPanic

section \<open>Settings (pkg/settings), as far as the source reads them\<close>

record KpmConf =
  DefaultOciRegistry :: string
  DefaultOciRepo :: string
  DefaultOciPlainHttp :: bool

record Settings =
  Conf :: KpmConf
  ErrorEvent :: "KpmEvent option"

definition Settings_DefaultOciRegistry :: "Settings \<Rightarrow> string" where
  "Settings_DefaultOciRegistry settings = DefaultOciRegistry (Conf settings)"

definition Settings_DefaultOciRepo :: "Settings \<Rightarrow> string" where
  "Settings_DefaultOciRepo settings = DefaultOciRepo (Conf settings)"

definition Settings_DefaultOciPlainHttp :: "Settings \<Rightarrow> bool" where
  "Settings_DefaultOciPlainHttp settings = DefaultOciPlainHttp (Conf settings)"

section \<open>Registry options (pkg/opt/opt.go)\<close>

record OciOptions =
  Reg :: string
  Repo :: string
  Tag :: string
  PkgName :: string

text \<open>
  \<^verbatim>\<open>net/url\<close> belongs to the Go standard library, not to this repository: the parser
  \<^verbatim>\<open>url.Parse\<close> is a parameter of every function that calls it (\<open>None\<close> is its error
  return). Of the parsed \<^verbatim>\<open>url.URL\<close> the code reads \<^verbatim>\<open>Scheme\<close>, \<^verbatim>\<open>Host\<close> and
  \<^verbatim>\<open>Path\<close>; \<^verbatim>\<open>Opaque\<close> is kept to tell a rootless URL such as \<^verbatim>\<open>a:b\<close> apart.
\<close>

record URL =
  Scheme :: string
  Opaque :: string
  Host :: string
  Path :: string

type_synonym url_parser = "string \<Rightarrow> URL option"

text \<open>\<^verbatim>\<open>const OCI_SEPARATOR = ":"\<close>, a separator of one byte.\<close>

definition OCI_SEPARATOR :: char where
  "OCI_SEPARATOR = CHR '':''"

text \<open>
  \<^verbatim>\<open>strings.Split(s, sep)\<close> for a separator of one byte: the segments between the
  occurrences of \<open>sep\<close>, in order; \<open>cur\<close> is the segment being read.
\<close>

fun genSplit :: "string \<Rightarrow> char \<Rightarrow> string \<Rightarrow> string list" where
  "genSplit [] sep cur = [cur]"
| "genSplit (c # cs) sep cur =
     (if c = sep then cur # genSplit cs sep [] else genSplit cs sep (cur @ [c]))"

definition Split :: "string \<Rightarrow> char \<Rightarrow> string list" where
  "Split s sep = genSplit s sep []"

text \<open>\<^verbatim>\<open>ParseOciUrl\<close>, opt.go lines 222-236.\<close>

definition ParseOciUrl :: "url_parser \<Rightarrow> string \<Rightarrow> KpmEvent + OciOptions" where
  "ParseOciUrl parse ociUrl =
     (case parse ociUrl of
        None \<Rightarrow> Inl (NewEvent IsNotUrl [])
      | Some u \<Rightarrow>
          if Scheme u \<noteq> ''oci'' then Inl (NewEvent UrlSchemeNotOci [])
          else Inr \<lparr>Reg = Host u, Repo = Path u, Tag = '''', PkgName = ''''\<rparr>)"

text \<open>
  \<^verbatim>\<open>ParseOciRef\<close>, opt.go lines 199-219. \<open>settings\<close> is what
  \<^verbatim>\<open>settings.GetSettings()\<close> returns at the call.
\<close>

definition ParseOciRef :: "Settings \<Rightarrow> string \<Rightarrow> go_error + OciOptions" where
  "ParseOciRef settings ociRef =
     (let oci_address = Split ociRef OCI_SEPARATOR in
      case ErrorEvent settings of
        Some ev \<Rightarrow> Inl (Ev ev)
      | None \<Rightarrow>
          if length oci_address = 1 then
            Inr \<lparr>Reg = Settings_DefaultOciRegistry settings, Repo = oci_address ! 0,
                 Tag = '''', PkgName = ''''\<rparr>
          else if length oci_address = 2 then
            Inr \<lparr>Reg = Settings_DefaultOciRegistry settings, Repo = oci_address ! 0,
                 Tag = oci_address ! 1, PkgName = ''''\<rparr>
          else Inl (Ev (NewEvent IsNotRef [])))"

text \<open>
  \<^verbatim>\<open>ParseOciOptionFromOciUrl\<close>, opt.go lines 188-195: the tag argument is stored as it
  is.
\<close>

definition ParseOciOptionFromOciUrl ::
  "url_parser \<Rightarrow> string \<Rightarrow> string \<Rightarrow> KpmEvent + OciOptions" where
  "ParseOciOptionFromOciUrl parse url tag =
     (case ParseOciUrl parse url of
        Inl err \<Rightarrow> Inl err
      | Inr ociOpt \<Rightarrow> Inr (ociOpt\<lparr>Tag := tag\<rparr>))"

text \<open>
  \<^verbatim>\<open>ParseOciOptionFromString\<close>, opt.go lines 167-184. The second component of the result
  holds the lines the call prints through \<^verbatim>\<open>reporter.Report\<close>, in order. With an
  event of a third type the source would fall through to \<^verbatim>\<open>ociOpt.Tag = tag\<close> on a nil
  \<^verbatim>\<open>ociOpt\<close>; \<open>ParseOciUrl_event_types\<close> below shows that no such event arrives.
\<close>

definition ParseOciOptionFromString ::
  "url_parser \<Rightarrow> Settings \<Rightarrow> string \<Rightarrow> string \<Rightarrow> (go_error + OciOptions) \<times> string list" where
  "ParseOciOptionFromString parse settings oci tag =
     (case ParseOciUrl parse oci of
        Inl event \<Rightarrow>
          if Type event = IsNotUrl \<or> Type event = UrlSchemeNotOci then
            (case ParseOciRef settings oci of
               Inl err \<Rightarrow> (Inl err, [])
             | Inr ociOpt \<Rightarrow>
                 (Inr ociOpt,
                  if length tag \<noteq> 0 then
                    [''kpm: kpm get version from oci reference '' @ [CHR 0x27] @ ''<repo_name>:<repo_tag>'' @ [CHR 0x27],
                     ''kpm: arg '' @ [CHR 0x27] @ ''--tag'' @ [CHR 0x27] @ '' is invalid for oci reference'']
                  else []))
          else (Inl NilPointerPanic, [])
      | Inr ociOpt \<Rightarrow> (Inr (ociOpt\<lparr>Tag := tag\<rparr>), []))"

section \<open>The publish pipeline (pkg/cmd/cmd_push.go)\<close>

text \<open>
  The world the pipeline acts on: the paths that exist on disk, the lines printed by
  \<^verbatim>\<open>reporter.Report\<close> and the events printed by \<^verbatim>\<open>reporter.ReportEventToStderr\<close>.
\<close>

record world =
  files :: "string set"
  stdout :: "string list"
  stderr :: "KpmEvent list"

text \<open>A loaded package, with what \<^verbatim>\<open>GetPkgName()\<close> and \<^verbatim>\<open>GetPkgTag()\<close> return.\<close>

record KclPkg =
  HomePath :: string
  GetPkgName :: string
  GetPkgTag :: string

text \<open>
  The collaborators of the pipeline, none of them under src: the standard library
  (\<^verbatim>\<open>url.Parse\<close>, \<^verbatim>\<open>URL.String\<close>, \<^verbatim>\<open>os.Getwd\<close>), \<^verbatim>\<open>utils.JoinPath\<close>, the settings
  that \<^verbatim>\<open>settings.GetSettings()\<close> returns during the run, the package loader, the
  stager \<^verbatim>\<open>PackageCurrentPkgPath\<close> and the transport \<^verbatim>\<open>oci.Push\<close>. Loader, stager and
  transport may change the world in any way. A loader or stager returns either an error
  or its value, as their callers assume. \<open>RemoveAll_denied\<close> tells for which paths the
  operating system refuses \<^verbatim>\<open>os.RemoveAll\<close>.
\<close>

record extern =
  url_Parse :: url_parser
  url_String :: "URL \<Rightarrow> string"
  JoinPath :: "string \<Rightarrow> string \<Rightarrow> string"
  GetSettings :: Settings
  Getwd :: "go_error + string"
  LoadKclPkg :: "string \<Rightarrow> world \<Rightarrow> (go_error + KclPkg) \<times> world"
  LoadKclPkgFromTar :: "string \<Rightarrow> world \<Rightarrow> (go_error + KclPkg) \<times> world"
  PackageCurrentPkgPath :: "KclPkg \<Rightarrow> bool \<Rightarrow> world \<Rightarrow> (go_error + string) \<times> world"
  Push :: "string \<Rightarrow> string \<Rightarrow> string \<Rightarrow> string \<Rightarrow> Settings \<Rightarrow> world \<Rightarrow> KpmEvent option \<times> world"
  RemoveAll_denied :: "string \<Rightarrow> bool"

definition Report :: "string \<Rightarrow> world \<Rightarrow> world" where
  "Report msg w = w\<lparr>stdout := stdout w @ [msg]\<rparr>"

definition ReportEventToStderr :: "KpmEvent \<Rightarrow> world \<Rightarrow> world" where
  "ReportEventToStderr ev w = w\<lparr>stderr := stderr w @ [ev]\<rparr>"

text \<open>
  Modelled from the spec: \<^verbatim>\<open>utils.DirExists\<close> is not under src; the spec's cleanup
  removes a path that exists on disk, so the test is the existence of the path.
\<close>

definition DirExists :: "string \<Rightarrow> world \<Rightarrow> bool" where
  "DirExists path w = (path \<in> files w)"

text \<open>
  \<^verbatim>\<open>os.RemoveAll(path)\<close>: when the operating system refuses, an error and nothing
  removed; otherwise the path and everything below it are gone.
\<close>

definition below :: "string \<Rightarrow> string \<Rightarrow> bool" where
  "below path q = (q = path \<or> prefix (path @ ''/'') q)"

definition RemoveAll :: "extern \<Rightarrow> string \<Rightarrow> world \<Rightarrow> go_error option \<times> world" where
  "RemoveAll x path w =
     (if RemoveAll_denied x path then (Some (Err (OtherError ''remove denied'')), w)
      else (None, w\<lparr>files := Set.filter (\<lambda>q. \<not> below path q) (files w)\<rparr>))"

text \<open>
  Modelled from the spec: the constant \<^verbatim>\<open>oci.OCI_SCHEME\<close> is not under src; the
  registry scheme of the spec's URLs is \<^verbatim>\<open>oci\<close>, the literal \<^verbatim>\<open>ParseOciUrl\<close> tests.
\<close>

definition OCI_SCHEME :: string where
  "OCI_SCHEME = ''oci''"

text \<open>\<^verbatim>\<open>genDefaultOciUrlForKclPkg\<close>, lines 68-83: the URL value built, then its string.\<close>

definition defaultOciUrl :: "extern \<Rightarrow> Settings \<Rightarrow> KclPkg \<Rightarrow> URL" where
  "defaultOciUrl x settings pkg =
     (let urlPath = JoinPath x (Settings_DefaultOciRepo settings) (GetPkgName pkg) in
      \<lparr>Scheme = OCI_SCHEME, Opaque = '''',
       Host = Settings_DefaultOciRegistry settings, Path = urlPath\<rparr>)"

definition genDefaultOciUrlForKclPkg :: "extern \<Rightarrow> KclPkg \<Rightarrow> go_error + string" where
  "genDefaultOciUrlForKclPkg x pkg =
     (let settings = GetSettings x in
      case ErrorEvent settings of
        Some ev \<Rightarrow> Inl (Ev ev)
      | None \<Rightarrow> Inr (url_String x (defaultOciUrl x settings pkg)))"

text \<open>
  Go evaluates the operand of \<^verbatim>\<open>return\<close> into the (unnamed) result before the deferred
  functions run. A function body is therefore modelled by the triple of the result fixed
  at its \<^verbatim>\<open>return\<close>, the local variable \<^verbatim>\<open>err\<close> at that moment and the world; the deferred
  closure then works on the local variable and the world, and the result stays.

  The body of both deferred closures (lines 113-118, 145-150) once the guard holds:
  \<^verbatim>\<open>err = os.RemoveAll(path); if err != nil { err = errors.InternalBug }\<close>.
\<close>

definition remove_setting_err :: "extern \<Rightarrow> string \<Rightarrow> world \<Rightarrow> go_error option \<times> world" where
  "remove_setting_err x path w =
     (case RemoveAll x path w of
        (None, w') \<Rightarrow> (None, w')
      | (Some e, w') \<Rightarrow> (Some (Err InternalBug), w'))"

text \<open>
  The deferred closure of \<^verbatim>\<open>pushPackage\<close>, lines 144-151. \<^verbatim>\<open>kclPkg != nil\<close> holds there:
  line 138 has already called a method of the package.
\<close>

definition pushPackage_deferred ::
  "extern \<Rightarrow> KclPkg \<Rightarrow> string \<Rightarrow> go_error option \<Rightarrow> world \<Rightarrow> go_error option \<times> world" where
  "pushPackage_deferred x kclPkg tarPath err w =
     (if DirExists tarPath w then remove_setting_err x tarPath w else (err, w))"

text \<open>Steps 2 to 4 of \<^verbatim>\<open>pushPackage\<close>, lines 153-180.\<close>

definition pushPackage_steps ::
  "extern \<Rightarrow> string \<Rightarrow> KclPkg \<Rightarrow> string \<Rightarrow> Settings \<Rightarrow> world
     \<Rightarrow> go_error option \<times> go_error option \<times> world" where
  "pushPackage_steps x ociUrl kclPkg tarPath settings w =
     (case (if length ociUrl = 0 then
              (case genDefaultOciUrlForKclPkg x kclPkg of
                 Inl e \<Rightarrow> Inl (Some e)
               | Inr generated \<Rightarrow> if length generated = 0 then Inl None else Inr generated)
            else Inr ociUrl) of
        Inl err \<Rightarrow>
          (Some (Err FailedPushToOci), err,
           Report (''kpm: run '' @ [CHR 0x27] @ ''kpm push help'' @ [CHR 0x27] @ '' for more information.'')
             (Report ''kpm: failed to generate default oci url for current package.'' w))
      | Inr ociUrl' \<Rightarrow>
          (case ParseOciOptionFromOciUrl (url_Parse x) ociUrl' (GetPkgTag kclPkg) of
             Inl ev \<Rightarrow>
               (Some (Ev (NewErrorEvent UnsupportOciUrlScheme InvalidOciUrl
                            [''only support url scheme '' @ [CHR 0x27] @ ''oci://'' @ [CHR 0x27] @ ''.''])),
                Some (Ev ev), w)
           | Inr ociOpts \<Rightarrow>
               (case Push x tarPath (Reg ociOpts) (Repo ociOpts) (Tag ociOpts) settings
                       (Report (''kpm: package '' @ [CHR 0x27] @ GetPkgName kclPkg @ [CHR 0x27]
                                  @ '' will be pushed.'') w) of
                  (Some ev, w') \<Rightarrow> (Some (Ev ev), Some (Ev ev), w')
                | (None, w') \<Rightarrow> (None, None, w'))))"

text \<open>\<^verbatim>\<open>pushPackage\<close>, lines 136-181.\<close>

definition pushPackage ::
  "extern \<Rightarrow> string \<Rightarrow> KclPkg \<Rightarrow> bool \<Rightarrow> Settings \<Rightarrow> world \<Rightarrow> go_error option \<times> world" where
  "pushPackage x ociUrl kclPkg vendorMode settings w =
     (case PackageCurrentPkgPath x kclPkg vendorMode w of
        (Inl err, w1) \<Rightarrow> (Some err, w1)
      | (Inr tarPath, w1) \<Rightarrow>
          (case pushPackage_steps x ociUrl kclPkg tarPath settings w1 of
             (ret, err, w2) \<Rightarrow>
               (case pushPackage_deferred x kclPkg tarPath err w2 of
                  (err', w3) \<Rightarrow> (ret, w3))))"

text \<open>\<^verbatim>\<open>pushCurrentPackage\<close>, lines 86-103.\<close>

definition pushCurrentPackage ::
  "extern \<Rightarrow> string \<Rightarrow> bool \<Rightarrow> Settings \<Rightarrow> world \<Rightarrow> go_error option \<times> world" where
  "pushCurrentPackage x ociUrl vendorMode settings w =
     (case Getwd x of
        Inl err \<Rightarrow>
          (Some err,
           ReportEventToStderr
             (NewEvent Bug [''internal bug: failed to load working directory'']) w)
      | Inr pwd \<Rightarrow>
          (case LoadKclPkg x pwd w of
             (Inl err, w1) \<Rightarrow>
               (Some err,
                ReportEventToStderr
                  (NewEvent FailedLoadKclMod
                     [''failed to load package in '' @ [CHR 0x27] @ pwd @ [CHR 0x27]]) w1)
           | (Inr kclPkg, w1) \<Rightarrow> pushPackage x ociUrl kclPkg vendorMode settings w1))"

text \<open>
  The deferred closure of \<^verbatim>\<open>pushTarPackage\<close>, lines 112-119; \<^verbatim>\<open>kclPkg\<close> is nil when the
  loader failed.
\<close>

definition pushTarPackage_deferred ::
  "extern \<Rightarrow> KclPkg option \<Rightarrow> go_error option \<Rightarrow> world \<Rightarrow> go_error option \<times> world" where
  "pushTarPackage_deferred x kclPkg err w =
     (case kclPkg of
        None \<Rightarrow> (err, w)
      | Some p \<Rightarrow>
          if DirExists (HomePath p) w then remove_setting_err x (HomePath p) w else (err, w))"

text \<open>\<^verbatim>\<open>pushTarPackage\<close>, lines 107-129.\<close>

definition pushTarPackage ::
  "extern \<Rightarrow> string \<Rightarrow> string \<Rightarrow> bool \<Rightarrow> Settings \<Rightarrow> world \<Rightarrow> go_error option \<times> world" where
  "pushTarPackage x ociUrl localTarPath vendorMode settings w =
     (case LoadKclPkgFromTar x localTarPath w of
        (Inl err, w1) \<Rightarrow>
          (case pushTarPackage_deferred x None (Some err) w1 of
             (err', w2) \<Rightarrow> (Some err, w2))
      | (Inr kclPkg, w1) \<Rightarrow>
          (case pushPackage x ociUrl kclPkg vendorMode settings w1 of
             (ret, w2) \<Rightarrow>
               (case pushTarPackage_deferred x (Some kclPkg) None w2 of
                  (err', w3) \<Rightarrow> (ret, w3))))"


section \<open>Settings construction from the environment\<close>

text \<open>The environment: the names that are set, with their values.\<close>

type_synonym environ = "string \<rightharpoonup> string"

text \<open>
  Modelled from the spec: \<^verbatim>\<open>pkg/settings/settings.go\<close> is not under src, only its test
  \<^verbatim>\<open>settings_test.go\<close> is. The spec (4.1): an override is read and validated against an
  enumerated set of accepted forms; an invalid value leaves the option at its previous
  value, records one diagnostic event naming the offending \<^verbatim>\<open>KEY=VALUE\<close> pair, and does
  not prevent the other options from being read. The set of accepted tokens of the
  boolean option is the parameter \<open>accepted\<close>. \<open>prior\<close> is the configuration read from
  the persisted file; the environment maps the names that are set to their values.
\<close>

definition GetSettingsWith ::
  "(string \<Rightarrow> bool option) \<Rightarrow> KpmConf \<Rightarrow> environ \<Rightarrow> Settings" where
  "GetSettingsWith accepted prior env =
     (let conf1 = (case env ''KPM_REG'' of
                     None \<Rightarrow> prior | Some v \<Rightarrow> prior\<lparr>DefaultOciRegistry := v\<rparr>);
          conf2 = (case env ''KPM_REPO'' of
                     None \<Rightarrow> conf1 | Some v \<Rightarrow> conf1\<lparr>DefaultOciRepo := v\<rparr>)
      in case env ''OCI_REG_PLAIN_HTTP'' of
           None \<Rightarrow> \<lparr>Conf = conf2, ErrorEvent = None\<rparr>
         | Some v \<Rightarrow>
             (case accepted v of
                Some b \<Rightarrow> \<lparr>Conf = conf2\<lparr>DefaultOciPlainHttp := b\<rparr>, ErrorEvent = None\<rparr>
              | None \<Rightarrow>
                  \<lparr>Conf = conf2,
                   ErrorEvent = Some (NewErrorEvent UnknownEnv UnknownEnvError
                     [''unknown environment variable '' @ [CHR 0x27]
                        @ ''OCI_REG_PLAIN_HTTP='' @ v @ [CHR 0x27]])\<rparr>))"

text \<open>
  The accepted tokens in the spec's words: \<^verbatim>\<open>"true"/"on"\<close> against
  \<^verbatim>\<open>"false"/"off"\<close>, anything else invalid.
\<close>

definition spec_tokens :: "string \<Rightarrow> bool option" where
  "spec_tokens v =
     (if v = ''true'' \<or> v = ''on'' then Some True
      else if v = ''false'' \<or> v = ''off'' then Some False
      else None)"

text \<open>
  The accepted tokens that the repository's test fixes (settings_test.go lines 170-188):
  \<^verbatim>\<open>on\<close> and \<^verbatim>\<open>off\<close> are accepted, \<^verbatim>\<open>true\<close> is answered by the diagnostic.
\<close>

definition test_tokens :: "string \<Rightarrow> bool option" where
  "test_tokens v =
     (if v = ''on'' then Some True
      else if v = ''off'' then Some False
      else None)"

text \<open>The defaults the tests expect (lines 45-51 and 162-164).\<close>

definition DefaultKpmConf :: KpmConf where
  "DefaultKpmConf =
     \<lparr>DefaultOciRegistry = ''ghcr.io'', DefaultOciRepo = ''kcl-lang'',
      DefaultOciPlainHttp = False\<rparr>"

definition GetSettingsFromEnv :: "environ \<Rightarrow> Settings" where
  "GetSettingsFromEnv env = GetSettingsWith test_tokens DefaultKpmConf env"

text \<open>
  \<^verbatim>\<open>TestSettingEnv\<close>, settings_test.go lines 160-189, as a predicate on a settings
  constructor: the four environments the test sets up one after the other and what it
  asserts in each. Of the expected error text (line 177) the first line is compared.
\<close>

definition env_test_true :: environ where
  "env_test_true =
     [''KPM_REG'' \<mapsto> ''test_reg'', ''KPM_REPO'' \<mapsto> ''test_repo'',
      ''OCI_REG_PLAIN_HTTP'' \<mapsto> ''true'']"

definition TestSettingEnv :: "(environ \<Rightarrow> Settings) \<Rightarrow> bool" where
  "TestSettingEnv construct =
     (let s0 = construct Map.empty;
          s1 = construct env_test_true;
          s2 = construct (env_test_true(''OCI_REG_PLAIN_HTTP'' \<mapsto> ''on''));
          s3 = construct (env_test_true(''OCI_REG_PLAIN_HTTP'' \<mapsto> ''off''))
      in Settings_DefaultOciRegistry s0 = ''ghcr.io''
       \<and> Settings_DefaultOciRepo s0 = ''kcl-lang''
       \<and> Settings_DefaultOciPlainHttp s0 = False
       \<and> Settings_DefaultOciRegistry s1 = ''test_reg''
       \<and> Settings_DefaultOciRepo s1 = ''test_repo''
       \<and> (case ErrorEvent s1 of
             None \<Rightarrow> False
           | Some ev \<Rightarrow> Type ev = UnknownEnv
               \<and> (\<exists>e. ev = NewErrorEvent UnknownEnv e
                    [''unknown environment variable '' @ [CHR 0x27]
                       @ ''OCI_REG_PLAIN_HTTP=true'' @ [CHR 0x27]]))
       \<and> Settings_DefaultOciPlainHttp s1 = False
       \<and> Settings_DefaultOciPlainHttp s2 = True
       \<and> Settings_DefaultOciPlainHttp s3 = False)"

section \<open>Sample values of the collaborators\<close>

text \<open>
  What \<^verbatim>\<open>url.Parse\<close> of the Go standard library returns on the strings used in the
  examples below, as a table: a hierarchical URL gives scheme, host and path; a string
  \<^verbatim>\<open>a:b\<close> is a URL of scheme \<^verbatim>\<open>a\<close> with the opaque part \<^verbatim>\<open>b\<close>; a string without a colon
  is a relative path; a string starting with a colon is an error (missing protocol
  scheme), which is also the table's answer outside its rows.
\<close>

definition url_Parse_samples :: url_parser where
  "url_Parse_samples = map_of
     [(''oci://ghcr.io/kcl-lang/mypkg'',
         \<lparr>Scheme = ''oci'', Opaque = '''', Host = ''ghcr.io'', Path = ''/kcl-lang/mypkg''\<rparr>),
      (''oci://ghcr.io/kcl-lang/mypkg:v1.0.0'',
         \<lparr>Scheme = ''oci'', Opaque = '''', Host = ''ghcr.io'',
          Path = ''/kcl-lang/mypkg:v1.0.0''\<rparr>),
      (''http://ghcr.io/kcl-lang/mypkg'',
         \<lparr>Scheme = ''http'', Opaque = '''', Host = ''ghcr.io'', Path = ''/kcl-lang/mypkg''\<rparr>),
      (''mypkg:v1.0.0'',
         \<lparr>Scheme = ''mypkg'', Opaque = ''v1.0.0'', Host = '''', Path = ''''\<rparr>),
      (''oci:v1'',
         \<lparr>Scheme = ''oci'', Opaque = ''v1'', Host = '''', Path = ''''\<rparr>),
      (''mypkg'',
         \<lparr>Scheme = '''', Opaque = '''', Host = '''', Path = ''mypkg''\<rparr>)]"

text \<open>Settings without a diagnostic, and the settings of the test's second environment.\<close>

definition settings_default :: Settings where
  "settings_default = \<lparr>Conf = DefaultKpmConf, ErrorEvent = None\<rparr>"

definition settings_invalid_env :: Settings where
  "settings_invalid_env =
     \<lparr>Conf = \<lparr>DefaultOciRegistry = ''test_reg'', DefaultOciRepo = ''test_repo'',
              DefaultOciPlainHttp = False\<rparr>,
      ErrorEvent = Some (NewErrorEvent UnknownEnv UnknownEnvError
         [''unknown environment variable '' @ [CHR 0x27]
            @ ''OCI_REG_PLAIN_HTTP=true'' @ [CHR 0x27]])\<rparr>"

text \<open>
  A run of the pipeline on a package \<^verbatim>\<open>mypkg\<close> of version \<^verbatim>\<open>v1.0.0\<close>: the loader from an
  archive extracts into \<^verbatim>\<open>/tmp/mypkg\<close>, the stager writes the archive below the package's
  home, the transport succeeds, and \<open>denied\<close> tells which removals are refused.
  \<^verbatim>\<open>URL.String\<close> and \<^verbatim>\<open>utils.JoinPath\<close> are given for a host and path that need no
  escaping and no trimming.
\<close>

definition sample_pkg :: "string \<Rightarrow> KclPkg" where
  "sample_pkg home = \<lparr>HomePath = home, GetPkgName = ''mypkg'', GetPkgTag = ''v1.0.0''\<rparr>"

definition sample_extern :: "Settings \<Rightarrow> (string \<Rightarrow> bool) \<Rightarrow> extern" where
  "sample_extern gs denied =
     \<lparr>url_Parse = url_Parse_samples,
      url_String = (\<lambda>u. Scheme u @ ''://'' @ Host u @ ''/'' @ Path u),
      JoinPath = (\<lambda>base elem. base @ ''/'' @ elem),
      GetSettings = gs,
      Getwd = Inr ''/work/mypkg'',
      LoadKclPkg = (\<lambda>path w. (Inr (sample_pkg path), w)),
      LoadKclPkgFromTar =
        (\<lambda>tar w. (Inr (sample_pkg ''/tmp/mypkg''),
                   w\<lparr>files := insert ''/tmp/mypkg'' (files w)\<rparr>)),
      PackageCurrentPkgPath =
        (\<lambda>pkg vendorMode w.
           (Inr (HomePath pkg @ ''/mypkg-v1.0.0.tar''),
            w\<lparr>files := insert (HomePath pkg @ ''/mypkg-v1.0.0.tar'') (files w)\<rparr>)),
      Push = (\<lambda>tarPath reg repo tag settings w. (None, w)),
      RemoveAll_denied = denied\<rparr>"

definition world0 :: world where
  "world0 = \<lparr>files = {''/work/mypkg'', ''/work/mypkg.tar''}, stdout = [], stderr = []\<rparr>"

section \<open>Facts about the splitting of a reference\<close>

lemma genSplit_length: "length (genSplit s sep cur) = Suc (count_list s sep)"
  by (induction s arbitrary: cur) auto

lemma genSplit_no_sep: "sep \<notin> set s \<Longrightarrow> genSplit s sep cur = [cur @ s]"
  by (induction s arbitrary: cur) auto

lemma genSplit_first_sep:
  "sep \<notin> set a \<Longrightarrow> genSplit (a @ sep # b) sep cur = (cur @ a) # genSplit b sep []"
  by (induction a arbitrary: cur) auto

text \<open>The number of segments is one more than the number of separators.\<close>

lemma Split_length: "length (Split s sep) = Suc (count_list s sep)"
  by (simp add: Split_def genSplit_length)

lemma Split_one: "length (Split s sep) = 1 \<Longrightarrow> Split s sep = [s]"
proof -
  assume "length (Split s sep) = 1"
  then have "count_list s sep = 0" by (simp add: Split_length)
  then have "sep \<notin> set s" by (simp add: count_list_0_iff)
  then show ?thesis by (simp add: Split_def genSplit_no_sep)
qed

lemma Split_two:
  assumes "length (Split s sep) = 2"
  shows "\<exists>a b. s = a @ sep # b \<and> sep \<notin> set a \<and> sep \<notin> set b \<and> Split s sep = [a, b]"
proof -
  from assms have c: "count_list s sep = 1" by (simp add: Split_length)
  then have "sep \<in> set s" by (metis count_list_0_iff zero_neq_one)
  then obtain a b where s: "s = a @ sep # b" and a: "sep \<notin> set a"
    by (metis split_list_first)
  from c s a have "count_list b sep = 0" by (simp add: count_list_0_iff)
  then have b: "sep \<notin> set b" by (simp add: count_list_0_iff)
  have "Split s sep = [a, b]"
    using a b s by (simp add: Split_def genSplit_first_sep genSplit_no_sep)
  with s a b show ?thesis by blast
qed

section \<open>Parsing a URL (claim C2)\<close>

text \<open>
  The two events of \<^verbatim>\<open>ParseOciUrl\<close> are the two that \<^verbatim>\<open>ParseOciOptionFromString\<close>
  tests for, so its nil-pointer branch is dead.
\<close>

lemma ParseOciUrl_event_types:
  "ParseOciUrl parse s = Inl ev \<Longrightarrow> Type ev = IsNotUrl \<or> Type ev = UrlSchemeNotOci"
  by (auto simp: ParseOciUrl_def split: option.splits if_splits)

text \<open>
  C2, as amended. \<^verbatim>\<open>ParseOciUrl\<close> succeeds exactly on the strings that \<^verbatim>\<open>url.Parse\<close>
  accepts with the scheme \<^verbatim>\<open>oci\<close>; on success the registry is the URL's host, the
  repository is the URL's path and the tag is empty. A URL of any other scheme fails with
  the event \<^verbatim>\<open>UrlSchemeNotOci\<close>; a string that \<^verbatim>\<open>url.Parse\<close> rejects fails with a different
  event, \<^verbatim>\<open>IsNotUrl\<close>.
\<close>

theorem ParseOciUrl_scheme_oci:
  "((\<exists>opts. ParseOciUrl parse ociUrl = Inr opts)
      \<longleftrightarrow> (\<exists>u. parse ociUrl = Some u \<and> Scheme u = ''oci''))
   \<and> (\<forall>u. parse ociUrl = Some u \<and> Scheme u = ''oci'' \<longrightarrow>
          ParseOciUrl parse ociUrl
            = Inr \<lparr>Reg = Host u, Repo = Path u, Tag = '''', PkgName = ''''\<rparr>)
   \<and> (\<forall>u. parse ociUrl = Some u \<and> Scheme u \<noteq> ''oci'' \<longrightarrow>
          ParseOciUrl parse ociUrl = Inl (NewEvent UrlSchemeNotOci []))
   \<and> (parse ociUrl = None \<longrightarrow> ParseOciUrl parse ociUrl = Inl (NewEvent IsNotUrl []))"
  by (auto simp: ParseOciUrl_def split: option.splits)

text \<open>
  The theorem at the spec's example, at a URL of scheme \<^verbatim>\<open>http\<close> and at a string
  without a scheme before its colon.
\<close>

theorem ParseOciUrl_scheme_oci_witness:
  "ParseOciUrl url_Parse_samples ''oci://ghcr.io/kcl-lang/mypkg''
     = Inr \<lparr>Reg = ''ghcr.io'', Repo = ''/kcl-lang/mypkg'', Tag = '''', PkgName = ''''\<rparr>
   \<and> ParseOciUrl url_Parse_samples ''http://ghcr.io/kcl-lang/mypkg''
     = Inl (NewEvent UrlSchemeNotOci [])
   \<and> ParseOciUrl url_Parse_samples '':mypkg'' = Inl (NewEvent IsNotUrl [])"
  using ParseOciUrl_scheme_oci [of url_Parse_samples "''oci://ghcr.io/kcl-lang/mypkg''"]
        ParseOciUrl_scheme_oci [of url_Parse_samples "''http://ghcr.io/kcl-lang/mypkg''"]
        ParseOciUrl_scheme_oci [of url_Parse_samples "'':mypkg''"]
  by (simp add: url_Parse_samples_def)

text \<open>
  C2 as stated fails on a malformed URL: \<^verbatim>\<open>:mypkg\<close> is rejected by \<^verbatim>\<open>url.Parse\<close>, and
  the event returned is \<^verbatim>\<open>IsNotUrl\<close>, neither the scheme event of \<^verbatim>\<open>ParseOciUrl\<close> nor the
  scheme event of the pipeline.
\<close>

theorem ParseOciUrl_malformed_counterexample:
  "url_Parse_samples '':mypkg'' = None
   \<and> ParseOciUrl url_Parse_samples '':mypkg'' = Inl (NewEvent IsNotUrl [])
   \<and> Type (NewEvent IsNotUrl []) \<noteq> UrlSchemeNotOci
   \<and> Type (NewEvent IsNotUrl []) \<noteq> UnsupportOciUrlScheme"
  by (simp add: url_Parse_samples_def ParseOciUrl_def)

section \<open>Parsing a compact reference (claim C3)\<close>

text \<open>
  C3, as amended. When the settings carry a diagnostic, \<^verbatim>\<open>ParseOciRef\<close> fails with that
  diagnostic on every input. When they carry none: an input of one segment gives the
  repository alone, with the tag empty and the registry the configured default; an input
  of two segments gives the repository and the tag, the registry defaulted; an input of
  more than two segments fails with the event \<^verbatim>\<open>IsNotRef\<close>.
\<close>

theorem ParseOciRef_segments:
  "(\<forall>ev. ErrorEvent settings = Some ev \<longrightarrow> ParseOciRef settings ociRef = Inl (Ev ev))
   \<and> (ErrorEvent settings = None \<longrightarrow>
        (length (Split ociRef OCI_SEPARATOR) = 1 \<longrightarrow>
           ParseOciRef settings ociRef
             = Inr \<lparr>Reg = Settings_DefaultOciRegistry settings, Repo = ociRef,
                    Tag = '''', PkgName = ''''\<rparr>)
      \<and> (length (Split ociRef OCI_SEPARATOR) = 2 \<longrightarrow>
           (\<exists>repo tag. ociRef = repo @ OCI_SEPARATOR # tag
              \<and> OCI_SEPARATOR \<notin> set repo \<and> OCI_SEPARATOR \<notin> set tag
              \<and> ParseOciRef settings ociRef
                  = Inr \<lparr>Reg = Settings_DefaultOciRegistry settings, Repo = repo,
                         Tag = tag, PkgName = ''''\<rparr>))
      \<and> (2 < length (Split ociRef OCI_SEPARATOR) \<longrightarrow>
           ParseOciRef settings ociRef = Inl (Ev (NewEvent IsNotRef []))))"
proof -
  have diag: "\<forall>ev. ErrorEvent settings = Some ev \<longrightarrow> ParseOciRef settings ociRef = Inl (Ev ev)"
    by (simp add: ParseOciRef_def Let_def)
  have one: "ParseOciRef settings ociRef
               = Inr \<lparr>Reg = Settings_DefaultOciRegistry settings, Repo = ociRef,
                      Tag = '''', PkgName = ''''\<rparr>"
    if "ErrorEvent settings = None" "length (Split ociRef OCI_SEPARATOR) = 1"
    using that Split_one [OF that(2)] by (simp add: ParseOciRef_def Let_def)
  have two: "\<exists>repo tag. ociRef = repo @ OCI_SEPARATOR # tag
              \<and> OCI_SEPARATOR \<notin> set repo \<and> OCI_SEPARATOR \<notin> set tag
              \<and> ParseOciRef settings ociRef
                  = Inr \<lparr>Reg = Settings_DefaultOciRegistry settings, Repo = repo,
                         Tag = tag, PkgName = ''''\<rparr>"
    if "ErrorEvent settings = None" "length (Split ociRef OCI_SEPARATOR) = 2"
  proof -
    from Split_two [OF that(2)] obtain a b where
      ab: "ociRef = a @ OCI_SEPARATOR # b" "OCI_SEPARATOR \<notin> set a" "OCI_SEPARATOR \<notin> set b"
          "Split ociRef OCI_SEPARATOR = [a, b]" by blast
    have "ParseOciRef settings ociRef
            = Inr \<lparr>Reg = Settings_DefaultOciRegistry settings, Repo = a, Tag = b, PkgName = ''''\<rparr>"
      using that(1) ab(4) by (simp add: ParseOciRef_def Let_def)
    with ab show ?thesis by blast
  qed
  have many: "ParseOciRef settings ociRef = Inl (Ev (NewEvent IsNotRef []))"
    if "ErrorEvent settings = None" "2 < length (Split ociRef OCI_SEPARATOR)"
    using that by (simp add: ParseOciRef_def Let_def)
  from diag one two many show ?thesis by blast
qed

text \<open>
  The theorem at \<^verbatim>\<open>mypkg\<close>, \<^verbatim>\<open>mypkg:v1.0.0\<close> and \<^verbatim>\<open>a:b:c\<close> under settings without a
  diagnostic, and at \<^verbatim>\<open>mypkg\<close> under the settings of the test's second environment.
\<close>

theorem ParseOciRef_segments_witness:
  "ParseOciRef settings_default ''mypkg''
     = Inr \<lparr>Reg = ''ghcr.io'', Repo = ''mypkg'', Tag = '''', PkgName = ''''\<rparr>
   \<and> (\<exists>repo tag. ''mypkg:v1.0.0'' = repo @ OCI_SEPARATOR # tag
         \<and> ParseOciRef settings_default ''mypkg:v1.0.0''
             = Inr \<lparr>Reg = ''ghcr.io'', Repo = repo, Tag = tag, PkgName = ''''\<rparr>)
   \<and> ParseOciRef settings_default ''a:b:c'' = Inl (Ev (NewEvent IsNotRef []))
   \<and> (\<exists>ev. ParseOciRef settings_invalid_env ''mypkg'' = Inl (Ev ev))"
proof -
  have none: "ErrorEvent settings_default = None"
    by (simp add: settings_default_def)
  have reg: "Settings_DefaultOciRegistry settings_default = ''ghcr.io''"
    by (simp add: settings_default_def Settings_DefaultOciRegistry_def DefaultKpmConf_def)
  have l1: "length (Split ''mypkg'' OCI_SEPARATOR) = 1"
    by (simp add: Split_def OCI_SEPARATOR_def)
  have l2: "length (Split ''mypkg:v1.0.0'' OCI_SEPARATOR) = 2"
    by (simp add: Split_def OCI_SEPARATOR_def)
  have l3: "2 < length (Split ''a:b:c'' OCI_SEPARATOR)"
    by (simp add: Split_def OCI_SEPARATOR_def)
  have some: "\<exists>ev. ErrorEvent settings_invalid_env = Some ev"
    by (simp add: settings_invalid_env_def)
  show ?thesis
    using ParseOciRef_segments [of settings_default "''mypkg''"]
          ParseOciRef_segments [of settings_default "''mypkg:v1.0.0''"]
          ParseOciRef_segments [of settings_default "''a:b:c''"]
          ParseOciRef_segments [of settings_invalid_env "''mypkg''"]
          none reg l1 l2 l3 some
    by (simp only: refl simp_thms) blast
qed

text \<open>
  C3 as stated fails under settings that carry a diagnostic, here the one the test
  obtains from \<^verbatim>\<open>OCI_REG_PLAIN_HTTP=true\<close>: the one-segment input \<^verbatim>\<open>mypkg\<close> gives no
  coordinate, and the three-segment input \<^verbatim>\<open>a:b:c\<close> fails with the diagnostic instead of
  \<^verbatim>\<open>IsNotRef\<close>.
\<close>

theorem ParseOciRef_diagnostic_counterexample:
  "length (Split ''mypkg'' OCI_SEPARATOR) = 1
   \<and> ParseOciRef settings_invalid_env ''mypkg''
       = Inl (Ev (NewErrorEvent UnknownEnv UnknownEnvError
           [''unknown environment variable '' @ [CHR 0x27]
              @ ''OCI_REG_PLAIN_HTTP=true'' @ [CHR 0x27]]))
   \<and> length (Split ''a:b:c'' OCI_SEPARATOR) = 3
   \<and> ParseOciRef settings_invalid_env ''a:b:c'' \<noteq> Inl (Ev (NewEvent IsNotRef []))"
  by (simp add: ParseOciRef_def Split_def OCI_SEPARATOR_def settings_invalid_env_def)

section \<open>The tag of a parsed URL (claim C10)\<close>



section \<open>The tag of a compact reference and the override (claim C7)\<close>

text \<open>
  C7, as amended. For every input that \<^verbatim>\<open>ParseOciUrl\<close> rejects (it is not a URL of scheme
  \<^verbatim>\<open>oci\<close>) and that splits into a repository and a tag, when the settings carry no
  diagnostic: whatever the tag override, \<^verbatim>\<open>ParseOciOptionFromString\<close> returns the parsed
  tag, and it reports the two warning lines exactly when the override is not empty.
\<close>

theorem ParseOciOptionFromString_reference_tag:
  assumes "ParseOciUrl parse oci = Inl event"
      and "ErrorEvent settings = None"
      and "Split oci OCI_SEPARATOR = [repo, parsedTag]"
  shows "ParseOciOptionFromString parse settings oci tag =
           (Inr \<lparr>Reg = Settings_DefaultOciRegistry settings, Repo = repo,
                 Tag = parsedTag, PkgName = ''''\<rparr>,
            if tag = [] then []
            else [''kpm: kpm get version from oci reference '' @ [CHR 0x27]
                    @ ''<repo_name>:<repo_tag>'' @ [CHR 0x27],
                  ''kpm: arg '' @ [CHR 0x27] @ ''--tag'' @ [CHR 0x27]
                    @ '' is invalid for oci reference''])"
proof -
  have ty: "Type event = IsNotUrl \<or> Type event = UrlSchemeNotOci"
    using assms(1) by (auto simp: ParseOciUrl_def split: option.splits if_splits)
  have ref: "ParseOciRef settings oci
               = Inr \<lparr>Reg = Settings_DefaultOciRegistry settings, Repo = repo,
                      Tag = parsedTag, PkgName = ''''\<rparr>"
    using assms(2,3) by (simp add: ParseOciRef_def Let_def)
  show ?thesis
    using assms(1) ty ref by (auto simp add: ParseOciOptionFromString_def)
qed

text \<open>The theorem at \<^verbatim>\<open>mypkg:v1.0.0\<close> with the override \<^verbatim>\<open>v2.0.0\<close>.\<close>

theorem ParseOciOptionFromString_reference_tag_witness:
  "ParseOciOptionFromString url_Parse_samples settings_default ''mypkg:v1.0.0'' ''v2.0.0'' =
           (Inr \<lparr>Reg = ''ghcr.io'', Repo = ''mypkg'', Tag = ''v1.0.0'', PkgName = ''''\<rparr>,
            [''kpm: kpm get version from oci reference '' @ [CHR 0x27]
                    @ ''<repo_name>:<repo_tag>'' @ [CHR 0x27],
             ''kpm: arg '' @ [CHR 0x27] @ ''--tag'' @ [CHR 0x27]
                    @ '' is invalid for oci reference''])"
proof -
  have a: "ParseOciUrl url_Parse_samples ''mypkg:v1.0.0'' = Inl (NewEvent UrlSchemeNotOci [])"
    by (simp add: ParseOciUrl_def url_Parse_samples_def)
  have b: "ErrorEvent settings_default = None"
    by (simp add: settings_default_def)
  have c: "Split ''mypkg:v1.0.0'' OCI_SEPARATOR = [''mypkg'', ''v1.0.0'']"
    by (simp add: Split_def OCI_SEPARATOR_def)
  have d: "Settings_DefaultOciRegistry settings_default = ''ghcr.io''"
    by (simp add: settings_default_def Settings_DefaultOciRegistry_def DefaultKpmConf_def)
  show ?thesis
    using ParseOciOptionFromString_reference_tag [OF a b c, of "''v2.0.0''"] d by simp
qed

text \<open>
  C7 as stated fails on the compact reference \<^verbatim>\<open>oci:v1\<close>, repository \<^verbatim>\<open>oci\<close> with the
  explicit tag \<^verbatim>\<open>v1\<close>: \<^verbatim>\<open>url.Parse\<close> reads it as a URL of scheme \<^verbatim>\<open>oci\<close>, so the override
  \<^verbatim>\<open>v2\<close> becomes the tag and nothing is reported.
\<close>

theorem ParseOciOptionFromString_override_counterexample:
  "Split ''oci:v1'' OCI_SEPARATOR = [''oci'', ''v1'']
   \<and> ParseOciOptionFromString url_Parse_samples settings_default ''oci:v1'' ''v2''
       = (Inr \<lparr>Reg = '''', Repo = '''', Tag = ''v2'', PkgName = ''''\<rparr>, [])"
  by (simp add: ParseOciOptionFromString_def ParseOciUrl_def url_Parse_samples_def
        Split_def OCI_SEPARATOR_def)

section \<open>Facts about removal and the deferred closures\<close>


lemma RemoveAll_files_subset: "RemoveAll x path w = (e, w') \<Longrightarrow> files w' \<subseteq> files w"
  by (auto simp: RemoveAll_def split: if_splits)


lemma RemoveAll_output:
  "RemoveAll x path w = (e, w') \<Longrightarrow> stdout w' = stdout w \<and> stderr w' = stderr w"
  by (auto simp: RemoveAll_def split: if_splits)

lemma remove_setting_err_files_subset:
  "remove_setting_err x path w = (e, w') \<Longrightarrow> files w' \<subseteq> files w"
  by (auto simp: remove_setting_err_def split: prod.splits option.splits
           dest: RemoveAll_files_subset)


lemma pushPackage_deferred_files_subset:
  "pushPackage_deferred x kclPkg tarPath err w = (e, w') \<Longrightarrow> files w' \<subseteq> files w"
  by (auto simp: pushPackage_deferred_def split: if_splits
           dest: remove_setting_err_files_subset)





section \<open>Cleanup of the staged archive and the extraction directory (claim C1)\<close>


text \<open>The definitions a run on the sample collaborators unfolds.\<close>

lemmas sample_run_defs =
  pushCurrentPackage_def pushTarPackage_def pushTarPackage_deferred_def
  pushPackage_def pushPackage_steps_def
  pushPackage_deferred_def remove_setting_err_def RemoveAll_def DirExists_def below_def
  genDefaultOciUrlForKclPkg_def defaultOciUrl_def sample_extern_def sample_pkg_def
  settings_default_def settings_invalid_env_def DefaultKpmConf_def
  Settings_DefaultOciRegistry_def Settings_DefaultOciRepo_def OCI_SCHEME_def
  url_Parse_samples_def ParseOciOptionFromOciUrl_def ParseOciUrl_def Report_def
  ReportEventToStderr_def world0_def Let_def



section \<open>A failing cleanup and the primary result (claim C8)\<close>








section \<open>The explicit destination of the pipeline (claim C4)\<close>

text \<open>
  C4, as amended. For every non-empty explicit destination, the publish pipeline parses
  it as a URL only: when \<^verbatim>\<open>ParseOciUrl\<close> rejects it (not a URL, or a scheme other than
  \<^verbatim>\<open>oci\<close>), \<^verbatim>\<open>pushPackage\<close> returns the error \<^verbatim>\<open>UnsupportOciUrlScheme\<close> and only the
  deferred cleanup touches the world. The second parse as a compact reference is what
  \<^verbatim>\<open>ParseOciOptionFromString\<close> does on the same input, which the pipeline does not call.
\<close>

theorem pushPackage_no_reference_fallback:
  assumes "PackageCurrentPkgPath x kclPkg vendorMode w = (Inr tarPath, w1)"
      and "ociUrl \<noteq> []"
      and "ParseOciUrl (url_Parse x) ociUrl = Inl event"
  shows "pushPackage x ociUrl kclPkg vendorMode settings w =
           (Some (Ev (NewErrorEvent UnsupportOciUrlScheme InvalidOciUrl
                        [''only support url scheme '' @ [CHR 0x27] @ ''oci://'' @ [CHR 0x27] @ ''.''])),
            snd (pushPackage_deferred x kclPkg tarPath (Some (Ev event)) w1))
         \<and> fst (ParseOciOptionFromString (url_Parse x) gs ociUrl tag) = ParseOciRef gs ociUrl"
proof -
  have ty: "Type event = IsNotUrl \<or> Type event = UrlSchemeNotOci"
    using assms(3) by (auto simp: ParseOciUrl_def split: option.splits if_splits)
  have a: "pushPackage_steps x ociUrl kclPkg tarPath settings w1 =
             (Some (Ev (NewErrorEvent UnsupportOciUrlScheme InvalidOciUrl
                        [''only support url scheme '' @ [CHR 0x27] @ ''oci://'' @ [CHR 0x27] @ ''.''])),
              Some (Ev event), w1)"
    using assms(2,3) by (simp add: pushPackage_steps_def ParseOciOptionFromOciUrl_def)
  have b: "fst (ParseOciOptionFromString (url_Parse x) gs ociUrl tag) = ParseOciRef gs ociUrl"
    using assms(3) ty by (auto simp: ParseOciOptionFromString_def split: sum.splits)
  show ?thesis
    using assms(1) a b by (simp add: pushPackage_def split: prod.splits)
qed

text \<open>The theorem at the destination \<^verbatim>\<open>mypkg:v1.0.0\<close>.\<close>

theorem pushPackage_no_reference_fallback_witness:
  "pushPackage (sample_extern settings_default (\<lambda>p. False)) ''mypkg:v1.0.0''
       (sample_pkg ''/work/mypkg'') False settings_default world0 =
     (Some (Ev (NewErrorEvent UnsupportOciUrlScheme InvalidOciUrl
                  [''only support url scheme '' @ [CHR 0x27] @ ''oci://'' @ [CHR 0x27] @ ''.''])),
      world0)
   \<and> fst (ParseOciOptionFromString url_Parse_samples settings_default ''mypkg:v1.0.0'' '''')
       = Inr \<lparr>Reg = ''ghcr.io'', Repo = ''mypkg'', Tag = ''v1.0.0'', PkgName = ''''\<rparr>"
proof -
  let ?x = "sample_extern settings_default (\<lambda>p. False)"
  let ?w1 = "world0\<lparr>files := insert ''/work/mypkg/mypkg-v1.0.0.tar'' (files world0)\<rparr>"
  have stage: "PackageCurrentPkgPath ?x (sample_pkg ''/work/mypkg'') False world0
      = (Inr ''/work/mypkg/mypkg-v1.0.0.tar'', ?w1)"
    by (simp add: sample_extern_def sample_pkg_def)
  have ne: "''mypkg:v1.0.0'' \<noteq> []" by simp
  have p: "ParseOciUrl (url_Parse ?x) ''mypkg:v1.0.0'' = Inl (NewEvent UrlSchemeNotOci [])"
    by (simp add: sample_extern_def ParseOciUrl_def url_Parse_samples_def)
  have d: "snd (pushPackage_deferred ?x (sample_pkg ''/work/mypkg'') ''/work/mypkg/mypkg-v1.0.0.tar''
                 (Some (Ev (NewEvent UrlSchemeNotOci []))) ?w1) = world0"
    by (auto simp: pushPackage_deferred_def remove_setting_err_def RemoveAll_def DirExists_def
          below_def sample_extern_def world0_def)
  have r: "ParseOciRef settings_default ''mypkg:v1.0.0''
             = Inr \<lparr>Reg = ''ghcr.io'', Repo = ''mypkg'', Tag = ''v1.0.0'', PkgName = ''''\<rparr>"
    by (simp add: ParseOciRef_def Split_def OCI_SEPARATOR_def settings_default_def
          Settings_DefaultOciRegistry_def DefaultKpmConf_def)
  have u: "url_Parse ?x = url_Parse_samples" by (simp add: sample_extern_def)
  show ?thesis
    using pushPackage_no_reference_fallback [OF stage ne p, of settings_default settings_default "''''"]
          d r u by simp
qed

text \<open>
  C4 as stated fails at the destinations \<^verbatim>\<open>mypkg:v1.0.0\<close> and \<^verbatim>\<open>mypkg\<close>: each is a compact
  reference, and the pipeline returns the scheme error without parsing it as one.
\<close>

theorem pushPackage_reference_rejected_counterexample:
  "ParseOciRef settings_default ''mypkg:v1.0.0''
     = Inr \<lparr>Reg = ''ghcr.io'', Repo = ''mypkg'', Tag = ''v1.0.0'', PkgName = ''''\<rparr>
   \<and> fst (pushPackage (sample_extern settings_default (\<lambda>p. False)) ''mypkg:v1.0.0''
            (sample_pkg ''/work/mypkg'') False settings_default world0)
       = Some (Ev (NewErrorEvent UnsupportOciUrlScheme InvalidOciUrl
                  [''only support url scheme '' @ [CHR 0x27] @ ''oci://'' @ [CHR 0x27] @ ''.'']))
   \<and> fst (pushCurrentPackage (sample_extern settings_default (\<lambda>p. False)) ''mypkg''
            False settings_default world0)
       = Some (Ev (NewErrorEvent UnsupportOciUrlScheme InvalidOciUrl
                  [''only support url scheme '' @ [CHR 0x27] @ ''oci://'' @ [CHR 0x27] @ ''.'']))"
  by (simp add: sample_run_defs ParseOciRef_def Split_def OCI_SEPARATOR_def)

section \<open>The default destination (claim C5)\<close>



section \<open>The plain-HTTP override of the environment (claim C6)\<close>

text \<open>
  The modelled constructor with the tokens \<^verbatim>\<open>on\<close> and \<^verbatim>\<open>off\<close> passes the repository's test;
  with the tokens of the spec's words it fails it, at the value \<^verbatim>\<open>true\<close>.
\<close>

lemma GetSettingsFromEnv_passes_test: "TestSettingEnv GetSettingsFromEnv"
  by (simp add: TestSettingEnv_def GetSettingsFromEnv_def GetSettingsWith_def test_tokens_def
        DefaultKpmConf_def env_test_true_def Settings_DefaultOciRegistry_def
        Settings_DefaultOciRepo_def Settings_DefaultOciPlainHttp_def Let_def)

lemma spec_tokens_fail_test: "\<not> TestSettingEnv (GetSettingsWith spec_tokens DefaultKpmConf)"
  by (simp add: TestSettingEnv_def GetSettingsWith_def spec_tokens_def
        DefaultKpmConf_def env_test_true_def Settings_DefaultOciRegistry_def
        Settings_DefaultOciRepo_def Settings_DefaultOciPlainHttp_def Let_def)




end
